theory Spec2Isabelle
  imports Complex_Main "HOL-Library.Word"
begin

section \<open>Streaming file service: data model\<close>

text \<open>
  The model follows \<^verbatim>\<open>plugins/streaming-file-service/src/server.js\<close>. Each
  request handler becomes a function from the service state to a result: the new state
  with the HTTP response, or \<open>Beyond\<close> where the request leaves what the model
  describes. What the handlers obtain from their environment is passed in: the
  identifiers drawn with \<^verbatim>\<open>uuidv4()\<close>, the clock \<^verbatim>\<open>Date.now()\<close> (milliseconds; the clock
  readings of one handler are taken as one time), the SHA-256 digest, the MIME table and
  the size check of fluent-ffmpeg.

  Numbers are exact integers. Where the source computes with doubles the model answers
  only for safe integers (\<open>safe_integer\<close>), on which the two agree. A chunk index
  is the integer that \<^verbatim>\<open>parseInt\<close> reads from the path (a segment it cannot read,
  giving \<^verbatim>\<open>NaN\<close>, is outside the model). The result of
  \<^verbatim>\<open>Math.ceil(totalSize / actualChunkSize)\<close> keeps JavaScript's non-finite values,
  because the division is by zero when the chunk size resolves to zero. A character of
  a string is a code unit below 256.

  The disk is described as far as the service lays it out itself: one staging
  directory per upload, holding the files \<^verbatim>\<open>chunk_<index>\<close>, and one directory per file
  identifier, holding one file. A name from a request that is joined into a path is
  followed only when it is a plain file name (\<open>plain_name\<close>); for any other name the
  handler may reach outside that layout, or the process may end on the unhandled error
  of a stream, and the model answers \<open>Beyond\<close>. File system calls on that layout
  succeed, except on a file or directory that does not exist. The identifiers that
  \<^verbatim>\<open>uuidv4()\<close> draws are plain names.
\<close>

type_synonym bytes = "8 word list"

datatype jsnum = Num int | PosInf | NegInf | NaN

record config =
  chunkSizeMB :: int
  uploadExpiryHours :: int
  fileRetentionHours :: int
  concurrentTransforms :: int

record env = config +
  sha256 :: "bytes \<Rightarrow> string"
  mime_lookup :: "string \<Rightarrow> string option"
  valid_size :: "string \<Rightarrow> bool"

record session =
  uploadId :: string
  filename :: string
  totalSize :: int
  mimeType :: string
  chunkSize :: int
  totalChunks :: jsnum
  receivedChunks :: "int list"
  metadata :: "(string \<times> string) list"
  createdAt :: int
  expiresAt :: int

record fileInfo =
  fileId :: string
  file_filename :: string
  file_size :: nat
  file_mimeType :: string
  file_checksum :: "string option"
  file_metadata :: "(string \<times> string) list"
  file_createdAt :: int
  file_expiresAt :: int

record job =
  jobId :: string
  status :: string
  progress :: int
  startedAt :: int
  inputFileId :: string
  outputFileId :: "string option"
  completedAt :: "int option"
  error :: "string option"

text \<open>
  The three registries are the maps \<^verbatim>\<open>uploadSessions\<close>, \<^verbatim>\<open>files\<close> and
  \<^verbatim>\<open>transformJobs\<close>. On disk, \<open>staging\<close> gives for an upload identifier its staging
  directory, when it exists, as the map from chunk index to the content of
  \<^verbatim>\<open>chunk_<index>\<close>; \<open>fileStore\<close> gives the content of the file that is stored for a
  file identifier. \<open>startedRuns\<close> are the jobs whose ffmpeg command has been started with
  \<^verbatim>\<open>save\<close>.
\<close>

record state =
  uploadSessions :: "string \<rightharpoonup> session"
  files :: "string \<rightharpoonup> fileInfo"
  transformJobs :: "string \<rightharpoonup> job"
  staging :: "string \<rightharpoonup> (int \<rightharpoonup> bytes)"
  fileStore :: "string \<rightharpoonup> bytes"
  startedRuns :: "string set"

definition empty_state :: state where
  "empty_state = \<lparr>uploadSessions = Map.empty, files = Map.empty, transformJobs = Map.empty,
     staging = Map.empty, fileStore = Map.empty, startedRuns = {}\<rparr>"

datatype exception =
    NoSuchChunk string int
  | NoSuchDirectory string
  | NoSuchFile string
  | InvalidArrayLength
  | StreamRangeError
  | InvalidTime
  | InvalidData
  | InvalidHeader
  | InvalidSize string

datatype response =
    InitOk string int jsnum int
  | ChunkOk int nat string
  | CompleteOk string string nat string
  | MissingChunks nat jsnum "int list"
  | NotFound string
  | ServerError exception
  | ParserError nat
  | Success
  | Partial int int nat int bytes
  | Full nat bytes
  | Accepted string string string
  | JobSnapshot job

datatype result = is_Answer: Answer (after: state) (reply: response) | Beyond

text \<open>
  \<^verbatim>\<open>Number.isSafeInteger\<close>; the time values of a valid \<^verbatim>\<open>Date\<close>, outside of which
  \<^verbatim>\<open>toISOString\<close> throws a \<^verbatim>\<open>RangeError\<close>.
\<close>

definition safe_integer :: "int \<Rightarrow> bool" where
  "safe_integer n \<longleftrightarrow> - 9007199254740991 \<le> n \<and> n \<le> 9007199254740991"

definition valid_time :: "int \<Rightarrow> bool" where
  "valid_time t \<longleftrightarrow> - 8640000000000000 \<le> t \<and> t \<le> 8640000000000000"

text \<open>
  A name that \<^verbatim>\<open>path.join\<close> appends to a directory as one component naming a file of
  that directory, on a POSIX file system: not empty, not a dot name, without a slash or
  a NUL, and of at most 255 bytes in UTF-8 (a code unit from 128 takes two).
\<close>

definition plain_name :: "string \<Rightarrow> bool" where
  "plain_name s \<longleftrightarrow>
     s \<noteq> [] \<and> s \<noteq> ''.'' \<and> s \<noteq> ''..'' \<and> CHR ''/'' \<notin> set s \<and> CHR 0x00 \<notin> set s \<and>
     int (length s) + int (length (filter (\<lambda>c. 128 \<le> (of_char c :: int)) s)) \<le> 255"

text \<open>
  The values \<^verbatim>\<open>res.setHeader\<close> accepts: tab, the printable ASCII characters and the
  code units from 128 to 255.
\<close>

definition header_char :: "char \<Rightarrow> bool" where
  "header_char c \<longleftrightarrow>
     (of_char c :: int) = 9 \<or> (32 \<le> (of_char c :: int) \<and> (of_char c :: int) \<le> 126) \<or>
     128 \<le> (of_char c :: int)"

definition header_ok :: "string \<Rightarrow> bool" where
  "header_ok s = list_all header_char s"

section \<open>Chunked upload\<close>

record init_request =
  req_filename :: string
  req_totalSize :: int
  req_mimeType :: "string option"
  req_chunkSize :: "int option"
  req_metadata :: "(string \<times> string) list option"

text \<open>\<^verbatim>\<open>chunkSize || config.chunkSizeMB * 1024 * 1024\<close>: an absent or zero chunk size is falsy.\<close>

definition actualChunkSize :: "('a config_scheme) \<Rightarrow> int option \<Rightarrow> int" where
  "actualChunkSize c cs =
     (case cs of
        None \<Rightarrow> chunkSizeMB c * 1024 * 1024
      | Some n \<Rightarrow> if n \<noteq> 0 then n else chunkSizeMB c * 1024 * 1024)"

text \<open>
  \<^verbatim>\<open>Math.ceil(a / b)\<close> on safe integers, with JavaScript's results for a zero divisor.
\<close>

definition ceil_div :: "int \<Rightarrow> int \<Rightarrow> jsnum" where
  "ceil_div a b =
     (if b = 0 then (if 0 < a then PosInf else if a < 0 then NegInf else NaN)
      else Num (- ((- a) div b)))"

text \<open>\<^verbatim>\<open>mimeType || mime.lookup(filename) || 'application/octet-stream'\<close>.\<close>

definition resolve_mime :: "env \<Rightarrow> string option \<Rightarrow> string \<Rightarrow> string" where
  "resolve_mime e m fname =
     (case m of
        Some t \<Rightarrow> if t \<noteq> [] then t
                  else (case mime_lookup e fname of Some t' \<Rightarrow> t' | None \<Rightarrow> ''application/octet-stream'')
      | None \<Rightarrow> (case mime_lookup e fname of Some t' \<Rightarrow> t' | None \<Rightarrow> ''application/octet-stream''))"

text \<open>
  \<^verbatim>\<open>POST /upload/init\<close>. Nothing of the request is checked. The staging directory is
  made first (\<^verbatim>\<open>mkdir\<close> with \<^verbatim>\<open>recursive\<close> keeps a directory that exists); building
  the session converts the expiry time with \<^verbatim>\<open>toISOString\<close>, which throws for a time
  outside the range of \<^verbatim>\<open>Date\<close>: then the \<^verbatim>\<open>catch\<close> block answers 500 and no session
  is stored. The model answers for numbers that are safe integers.
\<close>

definition InitUpload :: "env \<Rightarrow> state \<Rightarrow> init_request \<Rightarrow> string \<Rightarrow> int \<Rightarrow> result" where
  "InitUpload e st req uid now =
     (let acs = actualChunkSize e (req_chunkSize req);
          tc = ceil_div (req_totalSize req) acs;
          st1 = st\<lparr>staging := (staging st)(uid \<mapsto>
                  (case staging st uid of None \<Rightarrow> Map.empty | Some d \<Rightarrow> d))\<rparr>;
          s = \<lparr>uploadId = uid,
               filename = req_filename req,
               totalSize = req_totalSize req,
               mimeType = resolve_mime e (req_mimeType req) (req_filename req),
               chunkSize = acs,
               totalChunks = tc,
               receivedChunks = [],
               metadata = (case req_metadata req of Some m \<Rightarrow> m | None \<Rightarrow> []),
               createdAt = now,
               expiresAt = now + uploadExpiryHours e * 3600000\<rparr>
      in if \<not> (safe_integer (req_totalSize req) \<and> safe_integer acs \<and>
                 safe_integer (uploadExpiryHours e * 3600000) \<and> valid_time now)
         then Beyond
         else if \<not> valid_time (now + uploadExpiryHours e * 3600000)
         then Answer st1 (ServerError InvalidTime)
         else Answer (st1\<lparr>uploadSessions := (uploadSessions st1)(uid \<mapsto> s)\<rparr>)
                (InitOk uid acs tc (expiresAt s)))"

text \<open>
  What the body parsers hand to the chunk handler. \<open>Raw b\<close>: \<^verbatim>\<open>express.raw\<close> read the
  bytes \<open>b\<close> (it answers 413 itself beyond its limit of 100mb). \<open>PlainObject\<close>:
  \<^verbatim>\<open>req.body\<close> is an object that is neither a buffer nor iterable, because the
  request had no body or no content type, or a JSON object that the global
  \<^verbatim>\<open>express.json\<close> parsed. \<open>JsonArray\<close>: the JSON parser delivered an array, which
  \<^verbatim>\<open>fs.writeFile\<close> takes for an iterable of pieces; what it then writes is outside the
  model. \<open>Refused n\<close>: a parser answered with status \<open>n\<close> and the handler did not
  run.
\<close>

datatype chunk_body = Raw bytes | PlainObject | JsonArray | Refused nat

text \<open>\<^verbatim>\<open>includes\<close>, \<^verbatim>\<open>push\<close> and \<^verbatim>\<open>sort((a, b) => a - b)\<close> on the received indices.\<close>

definition track_chunk :: "int \<Rightarrow> int list \<Rightarrow> int list" where
  "track_chunk index rc = (if index \<in> set rc then rc else sort (rc @ [index]))"

text \<open>
  \<^verbatim>\<open>PUT /upload/:uploadId/chunk/:chunkIndex\<close>. The only check is that the session
  exists. \<^verbatim>\<open>fs.writeFile\<close> throws for a plain object as data, and rejects when the
  staging directory does not exist; in both cases the \<^verbatim>\<open>catch\<close> block answers 500 and
  nothing is recorded. Otherwise the chunk file is written (replacing an older one) and
  the index tracked. The model answers for an index that is a safe integer, which
  \<^verbatim>\<open>parseInt\<close> reads exactly.
\<close>

definition PutChunk :: "env \<Rightarrow> state \<Rightarrow> string \<Rightarrow> int \<Rightarrow> chunk_body \<Rightarrow> result" where
  "PutChunk e st uid index body =
     (if \<not> safe_integer index then Beyond else
      case body of
        Refused n \<Rightarrow> Answer st (ParserError n)
      | Raw b \<Rightarrow>
          if int (length b) > 104857600 then Answer st (ParserError 413)
          else
            (case uploadSessions st uid of
               None \<Rightarrow> Answer st (NotFound ''Upload session not found'')
             | Some s \<Rightarrow>
                 (case staging st uid of
                    None \<Rightarrow> Answer st (ServerError (NoSuchDirectory uid))
                  | Some d \<Rightarrow>
                      Answer
                        (st\<lparr>staging := (staging st)(uid \<mapsto> d(index \<mapsto> b)),
                            uploadSessions := (uploadSessions st)(uid \<mapsto>
                              s\<lparr>receivedChunks := track_chunk index (receivedChunks s)\<rparr>)\<rparr>)
                        (ChunkOk index (length b) (sha256 e b))))
      | PlainObject \<Rightarrow>
          (case uploadSessions st uid of
             None \<Rightarrow> Answer st (NotFound ''Upload session not found'')
           | Some s \<Rightarrow> Answer st (ServerError InvalidData))
      | JsonArray \<Rightarrow>
          (case uploadSessions st uid of
             None \<Rightarrow> Answer st (NotFound ''Upload session not found'')
           | Some s \<Rightarrow> Beyond))"

text \<open>\<^verbatim>\<open>receivedChunks.length !== totalChunks\<close> is false only for the finite number itself.\<close>

fun length_is :: "'a list \<Rightarrow> jsnum \<Rightarrow> bool" where
  "length_is xs (Num n) = (int (length xs) = n)"
| "length_is xs PosInf = False"
| "length_is xs NegInf = False"
| "length_is xs NaN = False"

text \<open>
  \<^verbatim>\<open>Array.from({ length: totalChunks }, (_, i) => i)\<close>: the length is clamped at zero
  from below, and a length above \<open>2^32 - 1\<close> raises \<^verbatim>\<open>RangeError\<close>.
\<close>

fun array_from_length :: "jsnum \<Rightarrow> int list option" where
  "array_from_length (Num n) =
     (if n \<le> 0 then Some [] else if n > 4294967295 then None else Some (map int [0..<nat n]))"
| "array_from_length PosInf = None"
| "array_from_length NegInf = Some []"
| "array_from_length NaN = Some []"

text \<open>The indices visited by \<^verbatim>\<open>for (let i = 0; i < session.totalChunks; i++)\<close>.\<close>

fun loop_indices :: "jsnum \<Rightarrow> int list" where
  "loop_indices (Num n) = map int [0..<nat n]"
| "loop_indices PosInf = []"
| "loop_indices NegInf = []"
| "loop_indices NaN = []"

text \<open>The content of \<^verbatim>\<open>chunk_<i>\<close> in the staging directory of an upload, if both exist.\<close>

definition chunk_file :: "state \<Rightarrow> string \<Rightarrow> int \<Rightarrow> bytes option" where
  "chunk_file st uid i = (case staging st uid of None \<Rightarrow> None | Some d \<Rightarrow> d i)"

text \<open>
  The body of that loop: read \<^verbatim>\<open>chunk_<i>\<close> and append it to the output. A chunk
  file that does not exist makes \<^verbatim>\<open>fs.readFile\<close> reject, which ends the handler in
  its \<^verbatim>\<open>catch\<close>.
\<close>

fun assemble :: "state \<Rightarrow> string \<Rightarrow> int list \<Rightarrow> exception + bytes" where
  "assemble st uid [] = Inr []"
| "assemble st uid (i # is) =
     (case chunk_file st uid i of
        None \<Rightarrow> Inl (NoSuchChunk uid i)
      | Some d \<Rightarrow> (case assemble st uid is of Inl x \<Rightarrow> Inl x | Inr r \<Rightarrow> Inr (d @ r)))"

text \<open>
  \<^verbatim>\<open>POST /upload/:uploadId/complete\<close>. The request field \<^verbatim>\<open>checksums\<close> is read from the
  body and not used afterwards. The file name of the session is joined into the output
  path and the output stream opened on it before the chunks are read; the model goes on
  for a plain name. On success the file is registered, the staging directory removed
  and the session deleted. When reading a chunk fails, or the expiry time of the file is
  not a valid date, the \<^verbatim>\<open>catch\<close> block answers 500 and no registry has changed; the
  output file then left on disk, which no record refers to, is left out of the model.
\<close>

definition Complete ::
  "env \<Rightarrow> state \<Rightarrow> string \<Rightarrow> string list option \<Rightarrow> string \<Rightarrow> int \<Rightarrow> result" where
  "Complete e st uid checksums fid now =
     (case uploadSessions st uid of
        None \<Rightarrow> Answer st (NotFound ''Upload session not found'')
      | Some s \<Rightarrow>
          if \<not> length_is (receivedChunks s) (totalChunks s) then
            (case array_from_length (totalChunks s) of
               None \<Rightarrow> Answer st (ServerError InvalidArrayLength)
             | Some idx \<Rightarrow>
                 Answer st (MissingChunks (length (receivedChunks s)) (totalChunks s)
                              (filter (\<lambda>i. i \<notin> set (receivedChunks s)) idx)))
          else if \<not> plain_name (filename s) then Beyond
          else
            (case assemble st uid (loop_indices (totalChunks s)) of
               Inl x \<Rightarrow> Answer st (ServerError x)
             | Inr content \<Rightarrow>
                 if \<not> (safe_integer (fileRetentionHours e * 3600000) \<and> valid_time now) then Beyond
                 else if \<not> valid_time (now + fileRetentionHours e * 3600000)
                 then Answer st (ServerError InvalidTime)
                 else
                   (let info = \<lparr>fileId = fid,
                                file_filename = filename s,
                                file_size = length content,
                                file_mimeType = mimeType s,
                                file_checksum = Some (sha256 e content),
                                file_metadata = metadata s,
                                file_createdAt = now,
                                file_expiresAt = now + fileRetentionHours e * 3600000\<rparr>
                    in Answer
                         (st\<lparr>files := (files st)(fid \<mapsto> info),
                             fileStore := (fileStore st)(fid \<mapsto> content),
                             staging := (staging st)(uid := None),
                             uploadSessions := (uploadSessions st)(uid := None)\<rparr>)
                         (CompleteOk fid (''/files/'' @ fid @ ''/'' @ filename s)
                            (length content) (sha256 e content)))))"


section \<open>Download\<close>

text \<open>
  \<^verbatim>\<open>fs.createReadStream(path, { start, end })\<close>: Node accepts as bounds the safe
  integers from 0 with \<open>start \<le> end\<close> and throws a \<^verbatim>\<open>RangeError\<close> otherwise; the
  stream carries the bytes from \<open>start\<close> up to \<open>end\<close> inclusive, as far as the file
  has them.
\<close>

definition createReadStream :: "bytes \<Rightarrow> int \<Rightarrow> int \<Rightarrow> exception + bytes" where
  "createReadStream content start end' =
     (if start < 0 \<or> end' < 0 \<or> start > 9007199254740991 \<or> end' > 9007199254740991 \<or>
         start > end'
      then Inl StreamRangeError
      else Inr (take (nat (end' - start + 1)) (drop (nat start) content)))"

text \<open>
  \<^verbatim>\<open>GET /download/:fileId\<close>. The range is the pair that the handler parses from the
  \<^verbatim>\<open>Range\<close> header: the start, and the end when the header gives one, as the integers
  that \<^verbatim>\<open>parseInt\<close> returns (a bound read as \<^verbatim>\<open>NaN\<close> or \<^verbatim>\<open>Infinity\<close> is outside
  the model). The MIME type
  and the file name of the record go into headers, which \<^verbatim>\<open>setHeader\<close> refuses for
  other characters than those of \<open>header_ok\<close>.
  \<open>Partial start end size contentLength body\<close> is the 206 response with
  \<^verbatim>\<open>Content-Range: bytes start-end/size\<close>; \<open>Full size body\<close> the 200 response.
\<close>

definition Download :: "state \<Rightarrow> string \<Rightarrow> (int \<times> int option) option \<Rightarrow> response" where
  "Download st fid rng =
     (case files st fid of
        None \<Rightarrow> NotFound ''File not found''
      | Some info \<Rightarrow>
          (case fileStore st fid of
             None \<Rightarrow> ServerError (NoSuchFile fid)
           | Some content \<Rightarrow>
               if \<not> (header_ok (file_mimeType info) \<and> header_ok (file_filename info))
               then ServerError InvalidHeader
               else
                 (case rng of
                    Some (start, e) \<Rightarrow>
                      (let end' = (case e of Some n \<Rightarrow> n | None \<Rightarrow> int (length content) - 1);
                           chunkSize = end' - start + 1
                       in (case createReadStream content start end' of
                             Inl x \<Rightarrow> ServerError x
                           | Inr body \<Rightarrow> Partial start end' (length content) chunkSize body))
                  | None \<Rightarrow> Full (length content) content)))"

section \<open>Transcoding jobs\<close>

text \<open>
  \<^verbatim>\<open>POST /transform/transcode\<close>. Of the request, the file identifier and the
  resolution decide what the handler does; codecs, bitrate, preset and output format
  are handed on to ffmpeg. The job record is stored with status \<^verbatim>\<open>'processing'\<close>;
  then the ffmpeg command is built, where \<^verbatim>\<open>command.size\<close> throws for a resolution
  that fluent-ffmpeg does not accept (the \<^verbatim>\<open>catch\<close> block answers 500 and the record
  stays), and started with \<^verbatim>\<open>save\<close>. The configuration is in scope;
  \<^verbatim>\<open>config.concurrentTransforms\<close> is not read.
\<close>

record transcode_request =
  tr_fileId :: string
  tr_resolution :: "string option"

definition Transcode :: "env \<Rightarrow> state \<Rightarrow> transcode_request \<Rightarrow> string \<Rightarrow> int \<Rightarrow> result" where
  "Transcode e st req jid now =
     (case files st (tr_fileId req) of
        None \<Rightarrow> Answer st (NotFound ''File not found'')
      | Some info \<Rightarrow>
          (let st1 = st\<lparr>transformJobs := (transformJobs st)(jid \<mapsto>
                       \<lparr>jobId = jid, status = ''processing'', progress = 0, startedAt = now,
                        inputFileId = tr_fileId req, outputFileId = None, completedAt = None,
                        error = None\<rparr>)\<rparr>;
               bad_size = (case tr_resolution req of
                             None \<Rightarrow> None
                           | Some r \<Rightarrow> if r \<noteq> [] \<and> \<not> valid_size e r then Some r else None)
           in (case bad_size of
                 Some r \<Rightarrow> Answer st1 (ServerError (InvalidSize r))
               | None \<Rightarrow>
                   Answer (st1\<lparr>startedRuns := insert jid (startedRuns st1)\<rparr>)
                     (Accepted jid ''processing'' (''/api/v1/files/transform/status/'' @ jid)))))"








section \<open>File deletion\<close>

text \<open>
  \<^verbatim>\<open>DELETE /files/:fileId\<close>: the directory of the path of the file is removed with
  \<^verbatim>\<open>force: true\<close> and the record deleted. \<^verbatim>\<open>transformJobs\<close> is not consulted. For
  a plain file name that directory is the one made for the file identifier.
\<close>

definition DeleteFile :: "state \<Rightarrow> string \<Rightarrow> result" where
  "DeleteFile st fid =
     (case files st fid of
        None \<Rightarrow> Answer st (NotFound ''File not found'')
      | Some info \<Rightarrow>
          if \<not> plain_name (file_filename info) then Beyond
          else Answer (st\<lparr>fileStore := (fileStore st)(fid := None),
                          files := (files st)(fid := None)\<rparr>)
                 Success)"

section \<open>Requests\<close>




text \<open>
  The values the session registry can take. The source touches \<^verbatim>\<open>uploadSessions\<close> in
  four places: \<^verbatim>\<open>set\<close> in the init handler with an empty list of received chunks,
  the tracking of an index in the chunk handler on a session of the registry, and
  \<^verbatim>\<open>delete\<close> in the complete and cancel handlers; a process that starts has an empty
  registry.
\<close>

inductive registry_reachable :: "(string \<rightharpoonup> session) \<Rightarrow> bool" where
  rr_empty: "registry_reachable Map.empty"
| rr_set: "registry_reachable m \<Longrightarrow> receivedChunks s = [] \<Longrightarrow> registry_reachable (m(uid \<mapsto> s))"
| rr_track: "registry_reachable m \<Longrightarrow> m uid = Some s \<Longrightarrow>
     registry_reachable (m(uid \<mapsto> s\<lparr>receivedChunks := track_chunk index (receivedChunks s)\<rparr>))"
| rr_delete: "registry_reachable m \<Longrightarrow> registry_reachable (m(uid := None))"

section \<open>Runs of requests and callbacks\<close>


text \<open>A chunk request that the chunk handler takes in: a safe index, a body within the limit.\<close>

definition chunk_ok :: "int \<times> bytes \<Rightarrow> bool" where
  "chunk_ok p \<longleftrightarrow> safe_integer (fst p) \<and> int (length (snd p)) \<le> 104857600"




section \<open>Examples\<close>

text \<open>
  A configuration with a ceiling of one concurrent transform, and stand-ins for the
  digest, the MIME table and the size check, for evaluating examples.
\<close>

definition example_env :: env where
  "example_env = \<lparr>chunkSizeMB = 10, uploadExpiryHours = 24, fileRetentionHours = 72,
     concurrentTransforms = 1, sha256 = map (\<lambda>w. char_of (unat w)), mime_lookup = (\<lambda>n. None),
     valid_size = (\<lambda>r. True)\<rparr>"

definition example_request :: init_request where
  "example_request = \<lparr>req_filename = ''a.bin'', req_totalSize = 25, req_mimeType = None,
     req_chunkSize = Some 10, req_metadata = None\<rparr>"

definition upload_started :: state where
  "upload_started = after (InitUpload example_env empty_state example_request ''u1'' 0)"

text \<open>An upload of 25 bytes in chunks of 10 that has received the indices 0, 1 and 5.\<close>

definition upload_015 :: state where
  "upload_015 =
     after (PutChunk example_env
       (after (PutChunk example_env
         (after (PutChunk example_env upload_started ''u1'' 0
                   (Raw [1, 2, 3, 4, 5, 6, 7, 8, 9, 10])))
         ''u1'' 1 (Raw [11, 12, 13, 14, 15, 16, 17, 18, 19, 20])))
       ''u1'' 5 (Raw [21, 22, 23, 24, 25]))"

text \<open>The same upload with the indices 0, 1 and 2: every chunk is staged.\<close>

definition upload_012 :: state where
  "upload_012 =
     after (PutChunk example_env
       (after (PutChunk example_env
         (after (PutChunk example_env upload_started ''u1'' 0
                   (Raw [1, 2, 3, 4, 5, 6, 7, 8, 9, 10])))
         ''u1'' 1 (Raw [11, 12, 13, 14, 15, 16, 17, 18, 19, 20])))
       ''u1'' 2 (Raw [21, 22, 23, 24, 25]))"

text \<open>The state after that upload is completed into the file \<open>f1\<close>.\<close>

definition file_stored :: state where
  "file_stored = after (Complete example_env upload_012 ''u1'' None ''f1'' 1)"

text \<open>Two transcoding jobs submitted for that file, one after the other.\<close>

definition transcode_f1 :: transcode_request where
  "transcode_f1 = \<lparr>tr_fileId = ''f1'', tr_resolution = None\<rparr>"

definition two_jobs :: state where
  "two_jobs =
     after (Transcode example_env (after (Transcode example_env file_stored transcode_f1 ''j1'' 2))
       transcode_f1 ''j2'' 3)"




section \<open>Results\<close>

lemma result_of_Answer: "is_Answer x \<Longrightarrow> x = Answer (after x) (reply x)"
  by (cases x) simp_all

section \<open>The session registry\<close>

text \<open>
  In every value the registry can take, the received indices of a session are ascending
  without repetition; every request and every callback leaves the registry among these
  values.
\<close>

lemma track_chunk_props:
  "sorted rc \<Longrightarrow> distinct rc \<Longrightarrow>
   sorted (track_chunk i rc) \<and> distinct (track_chunk i rc) \<and> set (track_chunk i rc) = insert i (set rc)"
  by (auto simp: track_chunk_def)

lemma registry_sorted_distinct:
  "registry_reachable m \<Longrightarrow> m uid = Some s \<Longrightarrow>
   sorted (receivedChunks s) \<and> distinct (receivedChunks s)"
proof (induction arbitrary: uid s rule: registry_reachable.induct)
  case rr_empty
  then show ?case by simp
next
  case (rr_set m s' uid')
  then show ?case by (cases "uid = uid'") auto
next
  case (rr_track m uid' s' index)
  show ?case
  proof (cases "uid = uid'")
    case True
    with rr_track.prems have "s = s'\<lparr>receivedChunks := track_chunk index (receivedChunks s')\<rparr>"
      by simp
    moreover from rr_track.IH [OF rr_track.hyps(2)]
    have "sorted (receivedChunks s')" "distinct (receivedChunks s')" by simp_all
    ultimately show ?thesis using track_chunk_props [of "receivedChunks s'" index] by simp
  next
    case False
    with rr_track.prems have "m uid = Some s" by simp
    then show ?thesis by (rule rr_track.IH)
  qed
next
  case (rr_delete m uid')
  then show ?case by (cases "uid = uid'") auto
qed

lemma rr_InitUpload:
  "registry_reachable (uploadSessions st) \<Longrightarrow> InitUpload e st req uid now = Answer st' r \<Longrightarrow>
   registry_reachable (uploadSessions st')"
  by (auto simp: InitUpload_def Let_def split: if_splits intro!: rr_set)

lemma rr_PutChunk:
  "registry_reachable (uploadSessions st) \<Longrightarrow> PutChunk e st uid index body = Answer st' r \<Longrightarrow>
   registry_reachable (uploadSessions st')"
  by (auto simp: PutChunk_def split: chunk_body.splits option.splits if_splits intro: rr_track)








text \<open>The registries of the example states.\<close>

lemma rr_empty_state: "registry_reachable (uploadSessions empty_state)"
  by (simp add: empty_state_def rr_empty)

lemma rr_upload_started: "registry_reachable (uploadSessions upload_started)"
proof -
  have "is_Answer (InitUpload example_env empty_state example_request ''u1'' 0)" by code_simp
  from result_of_Answer [OF this] show ?thesis
    unfolding upload_started_def using rr_InitUpload [OF rr_empty_state] by metis
qed

lemma PutChunk_is_Answer_Raw:
  "safe_integer index \<Longrightarrow> is_Answer (PutChunk e st uid index (Raw b))"
  by (simp add: PutChunk_def split: option.splits)

lemma rr_after_put:
  "registry_reachable (uploadSessions st) \<Longrightarrow> safe_integer index \<Longrightarrow>
   registry_reachable (uploadSessions (after (PutChunk e st uid index (Raw b))))"
  using rr_PutChunk result_of_Answer [OF PutChunk_is_Answer_Raw] by metis

lemma rr_upload_012: "registry_reachable (uploadSessions upload_012)"
  unfolding upload_012_def by (intro rr_after_put rr_upload_started) (simp_all add: safe_integer_def)

lemma rr_upload_015: "registry_reachable (uploadSessions upload_015)"
  unfolding upload_015_def by (intro rr_after_put rr_upload_started) (simp_all add: safe_integer_def)

section \<open>Completing an upload\<close>

lemma Complete_error_keeps_state:
  "Complete e st uid cs fid now = Answer st' (ServerError x) \<Longrightarrow> st' = st"
  by (auto simp: Complete_def Let_def split: option.splits sum.splits if_splits)

text \<open>
  Claim C1. Complete should succeed exactly when the received indices cover
  \<open>[0, totalChunks)\<close> and otherwise answer \<open>MissingChunks\<close> with the missing indices.
  The handler compares the number of received indices with \<open>totalChunks\<close>. For the
  upload of 25 bytes in chunks of 10 (three chunks) that received the indices 0, 1
  and 5, the numbers agree, the handler goes on to assemble, and reading
  \<^verbatim>\<open>chunk_2\<close> fails: the answer is the 500 of the \<^verbatim>\<open>catch\<close> block, not
  \<open>MissingChunks\<close> with \<open>[2]\<close>. The session stays as it was.
\<close>

theorem complete_count_check_misses_gap:
  "map_option receivedChunks (uploadSessions upload_015 ''u1'') = Some [0, 1, 5] \<and>
   map_option totalChunks (uploadSessions upload_015 ''u1'') = Some (Num 3) \<and>
   Complete example_env upload_015 ''u1'' None ''f1'' 1 =
     Answer upload_015 (ServerError (NoSuchChunk ''u1'' 2))"
proof -
  have a: "is_Answer (Complete example_env upload_015 ''u1'' None ''f1'' 1)"
    by code_simp
  have r: "reply (Complete example_env upload_015 ''u1'' None ''f1'' 1) =
      ServerError (NoSuchChunk ''u1'' 2)"
    by code_simp
  have s: "map_option receivedChunks (uploadSessions upload_015 ''u1'') = Some [0, 1, 5]"
    by code_simp
  have t: "map_option totalChunks (uploadSessions upload_015 ''u1'') = Some (Num 3)"
    by code_simp
  from result_of_Answer [OF a] r
  have c: "Complete example_env upload_015 ''u1'' None ''f1'' 1 =
      Answer (after (Complete example_env upload_015 ''u1'' None ''f1'' 1))
        (ServerError (NoSuchChunk ''u1'' 2))"
    by simp
  from Complete_error_keeps_state [OF c] c s t show ?thesis by simp
qed

lemma Complete_ignores_checksums:
  "Complete e st uid cs fid now = Complete e st uid cs' fid now"
  by (simp add: Complete_def)

text \<open>
  Claim C2. With every chunk received, a supplied checksum for chunk \<open>i\<close> that differs
  from the digest of chunk \<open>i\<close> should make Complete answer \<open>ChecksumMismatch\<close> for
  \<open>i\<close>, create no file and keep the session. The handler takes \<^verbatim>\<open>checksums\<close> from
  the request body and never reads it: for the complete upload of three chunks and a
  wrong checksum for chunk 1, Complete answers with the assembled file of 25 bytes,
  registers it and deletes the session.
\<close>

theorem complete_ignores_supplied_checksums:
  "sha256 example_env [11, 12, 13, 14, 15, 16, 17, 18, 19, 20] \<noteq> ''wrong'' \<and>
   is_Answer (Complete example_env upload_012 ''u1'' (Some [''x'', ''wrong'', ''x'']) ''f1'' 1) \<and>
   reply (Complete example_env upload_012 ''u1'' (Some [''x'', ''wrong'', ''x'']) ''f1'' 1) =
     CompleteOk ''f1'' ''/files/f1/a.bin'' 25
       (sha256 example_env [1, 2, 3, 4, 5, 6, 7, 8, 9, 10, 11, 12, 13, 14, 15, 16, 17, 18, 19, 20,
          21, 22, 23, 24, 25]) \<and>
   map_option file_size
     (files (after (Complete example_env upload_012 ''u1'' (Some [''x'', ''wrong'', ''x'']) ''f1'' 1))
        ''f1'') = Some 25 \<and>
   uploadSessions
     (after (Complete example_env upload_012 ''u1'' (Some [''x'', ''wrong'', ''x'']) ''f1'' 1))
     ''u1'' = None"
  by code_simp

section \<open>Starting an upload and receiving chunks\<close>

text \<open>
  Claim C5, as the handler behaves. InitUpload rejects nothing. For every request whose
  numbers are safe integers, at a time from which the expiry is a valid date, it stores a
  session under the new identifier, with no chunk received, makes its staging directory
  and answers with the identifier, the chunk size (the requested one unless absent or
  zero, then the configured default), \<open>totalChunks = ceil(totalSize / chunkSize)\<close> and
  the expiry time, whatever the sign of \<open>totalSize\<close> and also when the chunk size
  resolves to zero; no other session is touched.
\<close>

theorem init_upload_validates_nothing:
  assumes "safe_integer (req_totalSize req)"
    and "safe_integer (actualChunkSize e (req_chunkSize req))"
    and "safe_integer (uploadExpiryHours e * 3600000)"
    and "valid_time now" and "valid_time (now + uploadExpiryHours e * 3600000)"
  shows "\<exists>st'. InitUpload e st req uid now =
           Answer st' (InitOk uid (actualChunkSize e (req_chunkSize req))
             (ceil_div (req_totalSize req) (actualChunkSize e (req_chunkSize req)))
             (now + uploadExpiryHours e * 3600000)) \<and>
         map_option totalChunks (uploadSessions st' uid) =
           Some (ceil_div (req_totalSize req) (actualChunkSize e (req_chunkSize req))) \<and>
         map_option totalSize (uploadSessions st' uid) = Some (req_totalSize req) \<and>
         map_option receivedChunks (uploadSessions st' uid) = Some [] \<and>
         staging st' uid \<noteq> None \<and>
         (\<forall>u. u \<noteq> uid \<longrightarrow> uploadSessions st' u = uploadSessions st u)"
  using assms by (simp add: InitUpload_def Let_def)

theorem init_upload_validates_nothing_witness:
  "is_Answer (InitUpload example_env empty_state example_request ''u1'' 0) \<and>
   reply (InitUpload example_env empty_state example_request ''u1'' 0) =
     InitOk ''u1'' 10 (Num 3) 86400000 \<and>
   map_option totalChunks
     (uploadSessions (after (InitUpload example_env empty_state example_request ''u1'' 0)) ''u1'') =
     Some (Num 3) \<and>
   uploadSessions (after (InitUpload example_env empty_state example_request ''u1'' 0)) ''u2'' =
     None"
proof -
  have a: "actualChunkSize example_env (req_chunkSize example_request) = 10" by code_simp
  have b: "ceil_div (req_totalSize example_request) 10 = Num 3" by code_simp
  have c: "uploadExpiryHours example_env = 24" by code_simp
  have d: "uploadSessions empty_state ''u2'' = None" by (simp add: empty_state_def)
  have h: "safe_integer (req_totalSize example_request)"
    "safe_integer (actualChunkSize example_env (req_chunkSize example_request))"
    "safe_integer (uploadExpiryHours example_env * 3600000)"
    "valid_time 0" "valid_time (0 + uploadExpiryHours example_env * 3600000)"
    by code_simp+
  from init_upload_validates_nothing [OF h, of empty_state "''u1''"]
  obtain st' where "InitUpload example_env empty_state example_request ''u1'' 0 =
      Answer st' (InitOk ''u1'' 10 (Num 3) 86400000)"
    and "map_option totalChunks (uploadSessions st' ''u1'') = Some (Num 3)"
    and "uploadSessions st' ''u2'' = None"
    by (auto simp: a b c d)
  then show ?thesis by simp
qed

text \<open>
  The claim as stated fails: a total size of \<open>-25\<close> is answered with an identifier
  and \<open>totalChunks = -2\<close> and the session is stored; with a configured default of
  zero and no chunk size in the request, the chunk size resolves to zero and the
  answer carries \<open>totalChunks = Infinity\<close>.
\<close>

theorem init_upload_nonpositive_counterexample:
  "is_Answer (InitUpload example_env empty_state (example_request\<lparr>req_totalSize := - 25\<rparr>) ''u1'' 0) \<and>
   reply (InitUpload example_env empty_state (example_request\<lparr>req_totalSize := - 25\<rparr>) ''u1'' 0) =
     InitOk ''u1'' 10 (Num (- 2)) 86400000 \<and>
   map_option totalSize
     (uploadSessions
        (after (InitUpload example_env empty_state (example_request\<lparr>req_totalSize := - 25\<rparr>) ''u1'' 0))
        ''u1'') = Some (- 25) \<and>
   is_Answer (InitUpload (example_env\<lparr>chunkSizeMB := 0\<rparr>) empty_state
          (example_request\<lparr>req_chunkSize := None\<rparr>) ''u1'' 0) \<and>
   reply (InitUpload (example_env\<lparr>chunkSizeMB := 0\<rparr>) empty_state
          (example_request\<lparr>req_chunkSize := None\<rparr>) ''u1'' 0) =
     InitOk ''u1'' 0 PosInf 86400000"
  by code_simp




lemma distinct_count_list_one: "distinct xs \<Longrightarrow> x \<in> set xs \<Longrightarrow> count_list xs x = 1"
  by (induction xs) auto

text \<open>
  Claim C7. On an existing session whose staging directory exists, a second PutChunk,
  with a raw body within the limit, at an index already received overwrites the stored
  chunk, so that the stored bytes are those of the latest write, and leaves the received
  indices as they were: the session record is unchanged and the index occurs in it
  exactly once.
\<close>

theorem reupload_overwrites_without_duplicate:
  assumes "registry_reachable (uploadSessions st)" and "uploadSessions st uid = Some s"
    and "index \<in> set (receivedChunks s)"
    and "staging st uid = Some d" and "chunk_ok (index, b)"
  shows "\<exists>st'. PutChunk e st uid index (Raw b) = Answer st' (ChunkOk index (length b) (sha256 e b)) \<and>
           chunk_file st' uid index = Some b \<and>
           uploadSessions st' uid = Some s \<and>
           count_list (receivedChunks s) index = 1"
proof -
  from registry_sorted_distinct [OF assms(1,2)] have "distinct (receivedChunks s)" by simp
  with assms(3) have "count_list (receivedChunks s) index = 1"
    by (simp add: distinct_count_list_one)
  with assms(2-5) show ?thesis
    by (simp add: PutChunk_def chunk_file_def track_chunk_def chunk_ok_def)
qed

theorem reupload_overwrites_without_duplicate_witness:
  "is_Answer (PutChunk example_env upload_012 ''u1'' 1 (Raw [9, 9])) \<and>
   reply (PutChunk example_env upload_012 ''u1'' 1 (Raw [9, 9])) =
     ChunkOk 1 2 (sha256 example_env [9, 9]) \<and>
   chunk_file upload_012 ''u1'' 1 = Some [11, 12, 13, 14, 15, 16, 17, 18, 19, 20] \<and>
   chunk_file (after (PutChunk example_env upload_012 ''u1'' 1 (Raw [9, 9]))) ''u1'' 1 = Some [9, 9] \<and>
   map_option receivedChunks
     (uploadSessions (after (PutChunk example_env upload_012 ''u1'' 1 (Raw [9, 9]))) ''u1'') =
     Some [0, 1, 2]"
proof -
  have r: "map_option receivedChunks (uploadSessions upload_012 ''u1'') = Some [0, 1, 2]"
    by code_simp
  then obtain s where s: "uploadSessions upload_012 ''u1'' = Some s" by auto
  with r have i: "1 \<in> set (receivedChunks s)" by simp
  have "staging upload_012 ''u1'' \<noteq> None" by code_simp
  then obtain d where d: "staging upload_012 ''u1'' = Some d" by auto
  have l: "chunk_ok (1, [9, 9])" by (simp add: chunk_ok_def safe_integer_def)
  have c: "chunk_file upload_012 ''u1'' 1 = Some [11, 12, 13, 14, 15, 16, 17, 18, 19, 20]"
    by code_simp
  from reupload_overwrites_without_duplicate [OF rr_upload_012 s i d l, of example_env]
  obtain st' where "PutChunk example_env upload_012 ''u1'' 1 (Raw [9, 9]) =
      Answer st' (ChunkOk 1 (length [9, 9 :: 8 word]) (sha256 example_env [9, 9]))"
    and "chunk_file st' ''u1'' 1 = Some [9, 9]" and "uploadSessions st' ''u1'' = Some s"
    by blast
  with r s c show ?thesis by simp
qed

section \<open>Assembly in index order\<close>











section \<open>Download of a range\<close>

text \<open>
  Claim C8. A range whose start is at or beyond the size \<open>s\<close> of the file should be
  refused, and an end beyond \<open>s - 1\<close> clamped to \<open>s - 1\<close>. The handler passes the
  parsed bounds on unchecked: on the file of 25 bytes the range 30-40 is answered 206
  with a content length of 11 and no byte, and the range 20-100 is answered with
  \<^verbatim>\<open>Content-Range: bytes 20-100/25\<close> and a content length of 81 for a body of 5
  bytes.
\<close>

theorem download_headers_exceed_file:
  "map_option file_size (files file_stored ''f1'') = Some 25 \<and>
   Download file_stored ''f1'' (Some (30, Some 40)) = Partial 30 40 25 11 [] \<and>
   Download file_stored ''f1'' (Some (20, Some 100)) = Partial 20 100 25 81 [21, 22, 23, 24, 25]"
  by code_simp

section \<open>Transcoding jobs: states and progress\<close>

text \<open>
  Claim C3. With a concurrency ceiling of 1, the second of two transcode submissions
  should stay queued until the first has ended. The handler never reads
  \<^verbatim>\<open>config.concurrentTransforms\<close>: with the ceiling at 1, two submissions in a row are
  both answered \<open>processing\<close>, both records are in state \<open>processing\<close>, none is
  \<open>queued\<close>, and both ffmpeg commands have been started.
\<close>

theorem transcode_ignores_concurrency_ceiling:
  "concurrentTransforms example_env = 1 \<and>
   is_Answer (Transcode example_env file_stored transcode_f1 ''j1'' 2) \<and>
   is_Answer (Transcode example_env (after (Transcode example_env file_stored transcode_f1 ''j1'' 2))
     transcode_f1 ''j2'' 3) \<and>
   reply (Transcode example_env (after (Transcode example_env file_stored transcode_f1 ''j1'' 2))
     transcode_f1 ''j2'' 3) =
     Accepted ''j2'' ''processing'' ''/api/v1/files/transform/status/j2'' \<and>
   map_option status (transformJobs two_jobs ''j1'') = Some ''processing'' \<and>
   map_option status (transformJobs two_jobs ''j2'') = Some ''processing'' \<and>
   map_option status (transformJobs two_jobs ''j2'') \<noteq> Some ''queued'' \<and>
   ''j1'' \<in> startedRuns two_jobs \<and> ''j2'' \<in> startedRuns two_jobs"
  by code_simp










section \<open>Deleting a file\<close>

text \<open>
  Claim C10. For a file identifier of the registry whose file has a plain name, the
  delete request removes the record and the stored content and answers success,
  whatever the job registry holds: the jobs are neither read nor changed, also when a
  job in state \<open>processing\<close> has the file as its input.
\<close>

theorem delete_ignores_job_references:
  assumes "files st fid = Some info" and "plain_name (file_filename info)"
  shows "\<exists>st'. DeleteFile st fid = Answer st' Success \<and>
           files st' fid = None \<and> fileStore st' fid = None \<and>
           transformJobs st' = transformJobs st \<and>
           DeleteFile (st\<lparr>transformJobs := js\<rparr>) fid = Answer (st'\<lparr>transformJobs := js\<rparr>) Success"
  using assms by (simp add: DeleteFile_def)

theorem delete_ignores_job_references_witness:
  "is_Answer (DeleteFile two_jobs ''f1'') \<and>
   reply (DeleteFile two_jobs ''f1'') = Success \<and>
   files (after (DeleteFile two_jobs ''f1'')) ''f1'' = None \<and>
   fileStore (after (DeleteFile two_jobs ''f1'')) ''f1'' = None \<and>
   map_option status (transformJobs (after (DeleteFile two_jobs ''f1'')) ''j1'') = Some ''processing'' \<and>
   map_option inputFileId (transformJobs (after (DeleteFile two_jobs ''f1'')) ''j1'') = Some ''f1''"
proof -
  have "map_option file_filename (files two_jobs ''f1'') = Some ''a.bin''"
    by code_simp
  then obtain info where f: "files two_jobs ''f1'' = Some info"
    and n: "file_filename info = ''a.bin''" by auto
  have p: "plain_name (file_filename info)" unfolding n by code_simp
  have j: "map_option status (transformJobs two_jobs ''j1'') = Some ''processing''"
     "map_option inputFileId (transformJobs two_jobs ''j1'') = Some ''f1''" by code_simp+
  from delete_ignores_job_references [OF f p]
  obtain st' where "DeleteFile two_jobs ''f1'' = Answer st' Success"
    and "files st' ''f1'' = None" and "fileStore st' ''f1'' = None"
    and "transformJobs st' = transformJobs two_jobs"
    by blast
  with j show ?thesis by simp
qed

end
